theory Spec2Isabelle
  imports Main
begin

section \<open>Data model (models.ts)\<close>

text \<open>
  The literal union types of \<^verbatim>\<open>RequestSignatureInput\<close> are datatypes:
  \<^verbatim>\<open>service: 'appsync' | 'execute-api'\<close> and \<^verbatim>\<open>method: 'GET' | 'POST' | 'PUT'\<close>.
\<close>

datatype service = appsync | execute_api

datatype http_method = GET | POST | PUT

text \<open>
  \<^verbatim>\<open>body?: any\<close>: a JavaScript value. An absent field, like an omitted argument,
  reads as \<^verbatim>\<open>undefined\<close>. Numbers are represented by their integral values and
  \<^verbatim>\<open>NaN\<close>; objects (arrays, buffers) by their own properties.
\<close>

datatype js_value =
    JUndefined
  | JNull
  | JBoolean bool
  | JNumber int
  | JNaN
  | JString string
  | JObject "(string \<times> js_value) list"

text \<open>JavaScript's truthiness, which \<^verbatim>\<open>!input.body\<close> tests.\<close>

fun truthy :: "js_value \<Rightarrow> bool" where
  "truthy JUndefined = False"
| "truthy JNull = False"
| "truthy (JBoolean b) = b"
| "truthy (JNumber n) = (n \<noteq> 0)"
| "truthy JNaN = False"
| "truthy (JString s) = (s \<noteq> [])"
| "truthy (JObject ps) = True"

text \<open>
  An object used as a dictionary (\<^verbatim>\<open>{ [x: string]: string }\<close>) is a finite map from
  keys to values; the order of its properties is not modelled.
\<close>

type_synonym dict = "string \<rightharpoonup> string"

record RequestSignatureInput =
  service :: service
  region :: string
  roleArn :: "string option"
  hostname :: string
  path :: "string option"
  method' :: http_method
  body :: js_value
  query :: "dict option"
  headers :: "dict option"

text \<open>
  An \<^verbatim>\<open>Error\<close> object, by its name and message.
  \<^verbatim>\<open>class BadRequestException extends Error\<close> passes the message on and sets the name.
\<close>

record js_error =
  name :: string
  message :: string

definition BadRequestException :: "string \<Rightarrow> js_error" where
  "BadRequestException msg = \<lparr>name = ''BadRequestException'', message = msg\<rparr>"

section \<open>The packages the wrapper calls\<close>

text \<open>
  \<^verbatim>\<open>HttpRequest\<close> of \<^verbatim>\<open>@aws-sdk/protocol-http\<close>. Its constructor stores the options and
  fills in defaults: \<^verbatim>\<open>hostname || 'localhost'\<close>, protocol \<^verbatim>\<open>'https:'\<close>, no port, an
  empty query, no body, and a path that is \<^verbatim>\<open>'/'\<close> when empty and gets a leading
  \<^verbatim>\<open>'/'\<close> when it has none.
\<close>

record HttpRequest =
  req_method :: http_method
  req_protocol :: string
  req_hostname :: string
  req_port :: "nat option"
  req_path :: string
  req_query :: dict
  req_headers :: dict
  req_body :: js_value

definition HttpRequest_new :: "string \<Rightarrow> string \<Rightarrow> http_method \<Rightarrow> dict \<Rightarrow> HttpRequest" where
  "HttpRequest_new h p m hs =
     \<lparr>req_method = m,
      req_protocol = ''https:'',
      req_hostname = (if h \<noteq> [] then h else ''localhost''),
      req_port = None,
      req_path = (if p \<noteq> [] then (if hd p \<noteq> CHR ''/'' then CHR ''/'' # p else p) else ''/''),
      req_query = Map.empty,
      req_headers = hs,
      req_body = JUndefined\<rparr>"

text \<open>The two fields of a parsed \<^verbatim>\<open>URL\<close> that the wrapper reads.\<close>

record url =
  url_hostname :: string
  url_pathname :: string

text \<open>
  The credential providers: \<^verbatim>\<open>fromTemporaryCredentials({ params: { RoleArn, DurationSeconds } })\<close>
  and \<^verbatim>\<open>defaultProvider()\<close>. A provider is resolved by the signer, not by the wrapper.
\<close>

datatype credential_provider =
    fromTemporaryCredentials (RoleArn: string) (DurationSeconds: nat)
  | defaultProvider

record aws_credentials =
  accessKeyId :: string
  secretAccessKey :: string
  sessionToken :: "string option"

text \<open>The \<^verbatim>\<open>SignatureV4\<close> object: what its constructor is given (the hash is always \<^verbatim>\<open>Sha256\<close>).\<close>

record SignatureV4 =
  signer_credentials :: credential_provider
  signer_service :: service
  signer_region :: string

type_synonym timestamp = string

text \<open>
  What lies outside the repository is a parameter of the model: the platform's URL
  parser (\<^verbatim>\<open>new URL(s)\<close> throws on a string that is no URL), the resolution of a
  credential provider, the clock the signer reads once per call, and the SigV4
  computation of the signed request from the resolved credentials, the time, the service,
  the region and the request, in its two forms.
\<close>

record env =
  URL :: "string \<Rightarrow> js_error + url"
  resolve :: "credential_provider \<Rightarrow> js_error + aws_credentials"
  now :: timestamp
  sigv4_sign :: "aws_credentials \<Rightarrow> timestamp \<Rightarrow> service \<Rightarrow> string \<Rightarrow> HttpRequest \<Rightarrow> js_error + HttpRequest"
  sigv4_presign :: "aws_credentials \<Rightarrow> timestamp \<Rightarrow> service \<Rightarrow> string \<Rightarrow> HttpRequest \<Rightarrow> js_error + HttpRequest"

text \<open>\<^verbatim>\<open>signer.sign(request)\<close> and \<^verbatim>\<open>signer.presign(request)\<close>.\<close>

definition SignatureV4_sign :: "env \<Rightarrow> SignatureV4 \<Rightarrow> HttpRequest \<Rightarrow> js_error + HttpRequest" where
  "SignatureV4_sign e signer request =
     (case resolve e (signer_credentials signer) of
        Inl err \<Rightarrow> Inl err
      | Inr c \<Rightarrow> sigv4_sign e c (now e) (signer_service signer) (signer_region signer) request)"

definition SignatureV4_presign :: "env \<Rightarrow> SignatureV4 \<Rightarrow> HttpRequest \<Rightarrow> js_error + HttpRequest" where
  "SignatureV4_presign e signer request =
     (case resolve e (signer_credentials signer) of
        Inl err \<Rightarrow> Inl err
      | Inr c \<Rightarrow> sigv4_presign e c (now e) (signer_service signer) (signer_region signer) request)"

section \<open>AWSRequestSignatureV4.sign (index.ts)\<close>

text \<open>
  The effects of a call, in order: the debug lines written when a logger is given, and
  the calls of the signer with the signer object and the request handed over.
\<close>

datatype event =
    Debug string HttpRequest
  | Sign SignatureV4 HttpRequest
  | Presign SignatureV4 HttpRequest

text \<open>\<^verbatim>\<open>logger?.debug(msg, { request })\<close>: nothing without a logger.\<close>

definition debug :: "bool \<Rightarrow> string \<Rightarrow> HttpRequest \<Rightarrow> event list" where
  "debug logger msg r = (if logger then [Debug msg r] else [])"

text \<open>\<^verbatim>\<open>input.path || ''\<close>: an absent and an empty path both give the empty string.\<close>

definition or_empty :: "string option \<Rightarrow> string" where
  "or_empty p = (case p of None \<Rightarrow> [] | Some s \<Rightarrow> (if s \<noteq> [] then s else []))"

text \<open>The string given to \<^verbatim>\<open>new URL\<close>: \<^verbatim>\<open>`https://${input.hostname}${input.path || ''}`\<close>.\<close>

definition url_string :: "RequestSignatureInput \<Rightarrow> string" where
  "url_string input = ''https://'' @ hostname input @ or_empty (path input)"

text \<open>\<^verbatim>\<open>{ ...input.headers, host: url.hostname }\<close>; spreading \<^verbatim>\<open>undefined\<close> adds nothing.\<close>

definition spread :: "dict option \<Rightarrow> dict" where
  "spread d = (case d of None \<Rightarrow> Map.empty | Some m \<Rightarrow> m)"

text \<open>
  The variable \<^verbatim>\<open>request\<close> as the signer receives it: constructed from the parsed URL,
  then given the query when the input has one, then the body when the method is not GET.
\<close>

definition request :: "url \<Rightarrow> RequestSignatureInput \<Rightarrow> HttpRequest" where
  "request u input =
     (let r0 = HttpRequest_new (url_hostname u) (url_pathname u) (method' input)
                 ((spread (headers input))(''host'' \<mapsto> url_hostname u));
          r1 = (case query input of None \<Rightarrow> r0 | Some q \<Rightarrow> r0\<lparr>req_query := q\<rparr>)
      in if method' input \<noteq> GET then r1\<lparr>req_body := body input\<rparr> else r1)"

definition credentialsToUse :: "RequestSignatureInput \<Rightarrow> credential_provider" where
  "credentialsToUse input =
     (case roleArn input of
        None \<Rightarrow> defaultProvider
      | Some r \<Rightarrow> (if r \<noteq> [] then fromTemporaryCredentials r 3600 else defaultProvider))"

definition signer :: "RequestSignatureInput \<Rightarrow> SignatureV4" where
  "signer input =
     \<lparr>signer_credentials = credentialsToUse input,
      signer_service = service input,
      signer_region = region input\<rparr>"

text \<open>\<^verbatim>\<open>delete signedRequest.headers.host\<close>.\<close>

definition delete_host :: "HttpRequest \<Rightarrow> HttpRequest" where
  "delete_host r = r\<lparr>req_headers := (req_headers r)(''host'' := None)\<rparr>"

text \<open>
  \<^verbatim>\<open>sign(input, addSignatureTo?, logger?)\<close>. The result is the list of effects and either
  the error thrown (\<open>Inl\<close>) or the signed request returned (\<open>Inr\<close>). The first debug
  line shows the request as constructed, before the query and the body are set.
  \<^verbatim>\<open>addSignatureTo\<close> is declared \<^verbatim>\<open>'headers' | 'query'\<close> and optional; the code only
  compares it with \<^verbatim>\<open>'headers'\<close> by \<^verbatim>\<open>===\<close>, so it is taken as any JavaScript value,
  \<^verbatim>\<open>undefined\<close> when omitted.
\<close>

definition sign ::
  "env \<Rightarrow> RequestSignatureInput \<Rightarrow> js_value \<Rightarrow> bool
     \<Rightarrow> event list \<times> (js_error + HttpRequest)" where
  "sign e input addSignatureTo logger =
     (case URL e (url_string input) of
        Inl err \<Rightarrow> ([], Inl err)
      | Inr u \<Rightarrow>
          let log1 = debug logger ''AWSRequestSignatureV4 | Pre-signed request''
                       (HttpRequest_new (url_hostname u) (url_pathname u) (method' input)
                          ((spread (headers input))(''host'' \<mapsto> url_hostname u)))
          in if method' input \<noteq> GET \<and> \<not> truthy (body input)
             then (log1, Inl (BadRequestException ''Request body is missing''))
             else if addSignatureTo = JString ''headers''
             then (case SignatureV4_sign e (signer input) (request u input) of
                     Inl err \<Rightarrow> (log1 @ [Sign (signer input) (request u input)], Inl err)
                   | Inr signedRequest \<Rightarrow>
                       (log1 @ [Sign (signer input) (request u input)]
                          @ debug logger ''AWSRequestSignatureV4 | Signed request''
                              (delete_host signedRequest),
                        Inr (delete_host signedRequest)))
             else (case SignatureV4_presign e (signer input) (request u input) of
                     Inl err \<Rightarrow> (log1 @ [Presign (signer input) (request u input)], Inl err)
                   | Inr signedRequest \<Rightarrow>
                       (log1 @ [Presign (signer input) (request u input)]
                          @ debug logger ''AWSRequestSignatureV4 | Signed request'' signedRequest,
                        Inr signedRequest)))"

text \<open>The signer calls among the effects, and which of the two methods each is.\<close>

fun signer_calls :: "event list \<Rightarrow> (SignatureV4 \<times> HttpRequest) list" where
  "signer_calls [] = []"
| "signer_calls (Debug m r # es) = signer_calls es"
| "signer_calls (Sign s r # es) = (s, r) # signer_calls es"
| "signer_calls (Presign s r # es) = (s, r) # signer_calls es"

fun is_sign :: "event \<Rightarrow> bool" where
  "is_sign (Sign s r) = True"
| "is_sign _ = False"

fun is_presign :: "event \<Rightarrow> bool" where
  "is_presign (Presign s r) = True"
| "is_presign _ = False"

section \<open>An environment to run the wrapper in\<close>

text \<open>
  Stand-ins for the packages, to evaluate \<open>sign\<close> on concrete inputs. The URL parser
  cuts \<^verbatim>\<open>https://host/path\<close> at the first \<^verbatim>\<open>/\<close>; it accepts a non-empty host over
  lower-case letters, \<^verbatim>\<open>.\<close> and \<^verbatim>\<open>-\<close> and a path over letters, digits, \<^verbatim>\<open>-\<close>, \<^verbatim>\<open>_\<close>,
  \<^verbatim>\<open>~\<close> and \<^verbatim>\<open>/\<close>, where the platform's parser returns the host and the path as they
  are written (\<^verbatim>\<open>/\<close> for no path), and throws on every other string, which the
  platform's parser need not do. The signer stand-ins add the headers or the query
  parameters of SigV4 with the signature left symbolic: they follow the interface of
  the package, not its cryptography.
\<close>

definition is_host_char :: "char \<Rightarrow> bool" where
  "is_host_char c = (c \<in> set ''abcdefghijklmnopqrstuvwxyz.-'')"

definition is_path_char :: "char \<Rightarrow> bool" where
  "is_path_char c =
     (c \<in> set ''abcdefghijklmnopqrstuvwxyzABCDEFGHIJKLMNOPQRSTUVWXYZ0123456789-_~/'')"

definition sample_URL :: "string \<Rightarrow> js_error + url" where
  "sample_URL s =
     (let rest = drop 8 s;
          host = takeWhile (\<lambda>c. c \<noteq> CHR ''/'') rest;
          p = dropWhile (\<lambda>c. c \<noteq> CHR ''/'') rest
      in if take 8 s = ''https://'' \<and> host \<noteq> [] \<and> list_all is_host_char host
            \<and> list_all is_path_char p
         then Inr \<lparr>url_hostname = host, url_pathname = (if p = [] then ''/'' else p)\<rparr>
         else Inl \<lparr>name = ''TypeError'', message = ''Invalid URL''\<rparr>)"

definition sample_resolve :: "credential_provider \<Rightarrow> js_error + aws_credentials" where
  "sample_resolve p =
     (case p of
        fromTemporaryCredentials r d \<Rightarrow>
          Inr \<lparr>accessKeyId = ''ASIAEXAMPLE'', secretAccessKey = ''temporary-secret'',
               sessionToken = Some (''session-of-'' @ r)\<rparr>
      | defaultProvider \<Rightarrow>
          Inr \<lparr>accessKeyId = ''AKIDEXAMPLE'', secretAccessKey = ''default-secret'',
               sessionToken = None\<rparr>)"

definition sample_scope :: "aws_credentials \<Rightarrow> timestamp \<Rightarrow> service \<Rightarrow> string \<Rightarrow> string" where
  "sample_scope c t svc rg =
     accessKeyId c @ ''/'' @ take 8 t @ ''/'' @ rg @ ''/''
       @ (case svc of appsync \<Rightarrow> ''appsync'' | execute_api \<Rightarrow> ''execute-api'')
       @ ''/aws4_request''"

definition sample_sigv4_sign ::
  "aws_credentials \<Rightarrow> timestamp \<Rightarrow> service \<Rightarrow> string \<Rightarrow> HttpRequest \<Rightarrow> js_error + HttpRequest" where
  "sample_sigv4_sign c t svc rg r =
     Inr (r\<lparr>req_headers := (req_headers r)
            (''x-amz-date'' \<mapsto> t,
             ''authorization'' \<mapsto>
               ''AWS4-HMAC-SHA256 Credential='' @ sample_scope c t svc rg)\<rparr>)"

definition sample_sigv4_presign ::
  "aws_credentials \<Rightarrow> timestamp \<Rightarrow> service \<Rightarrow> string \<Rightarrow> HttpRequest \<Rightarrow> js_error + HttpRequest" where
  "sample_sigv4_presign c t svc rg r =
     Inr (r\<lparr>req_query := (req_query r)
            (''X-Amz-Algorithm'' \<mapsto> ''AWS4-HMAC-SHA256'',
             ''X-Amz-Credential'' \<mapsto> sample_scope c t svc rg,
             ''X-Amz-Date'' \<mapsto> t,
             ''X-Amz-SignedHeaders'' \<mapsto> ''host'')\<rparr>)"

definition sample_env :: env where
  "sample_env =
     \<lparr>URL = sample_URL, resolve = sample_resolve, now = ''20150830T123600Z'',
      sigv4_sign = sample_sigv4_sign, sigv4_presign = sample_sigv4_presign\<rparr>"

text \<open>The input of the example in the documentation comment of \<^verbatim>\<open>index.ts\<close>, without a body.\<close>

definition example_input :: RequestSignatureInput where
  "example_input =
     \<lparr>service = execute_api, region = ''eu-west-1'',
      roleArn = Some ''arn:aws:iam::1111111111:role/example'',
      hostname = ''example-api.com'', path = Some ''/users'', method' = GET,
      body = JUndefined, query = Some [''param1'' \<mapsto> ''paramValue''], headers = None\<rparr>"

section \<open>How a call of sign proceeds\<close>

lemmas sample_defs =
  sample_env_def sample_URL_def is_host_char_def is_path_char_def sample_resolve_def
  sample_sigv4_sign_def sample_sigv4_presign_def sample_scope_def example_input_def

lemmas sign_defs =
  sign_def Let_def url_string_def or_empty_def spread_def request_def credentialsToUse_def
  signer_def delete_host_def debug_def HttpRequest_new_def SignatureV4_sign_def
  SignatureV4_presign_def BadRequestException_def

lemma signer_calls_append: "signer_calls (xs @ ys) = signer_calls xs @ signer_calls ys"
  by (induction xs rule: signer_calls.induct) simp_all

lemma signer_calls_debug: "signer_calls (debug lg msg r) = []"
  by (simp add: debug_def)

lemma url_string_path:
  "url_string input = ''https://'' @ hostname input @ (case path input of None \<Rightarrow> [] | Some p \<Rightarrow> p)"
  by (simp add: url_string_def or_empty_def split: option.splits)

text \<open>The URL is parsed first: its error leaves \<open>sign\<close> before anything else happens.\<close>

lemma sign_URL_error:
  "URL e (url_string input) = Inl err \<Longrightarrow> sign e input m lg = ([], Inl err)"
  by (simp add: sign_def)

text \<open>The body check: the error is thrown with no signer call made.\<close>

lemma sign_missing_body:
  assumes "URL e (url_string input) = Inr u"
    and "method' input \<noteq> GET" and "\<not> truthy (body input)"
  shows "snd (sign e input m lg) = Inl (BadRequestException ''Request body is missing'')"
    and "signer_calls (fst (sign e input m lg)) = []"
  using assms by (simp_all add: sign_def Let_def signer_calls_debug)

text \<open>Past the body check, the outcome is the signer's and the signer is called once.\<close>

lemma sign_outcome:
  assumes "URL e (url_string input) = Inr u"
    and "method' input = GET \<or> truthy (body input)"
  shows "snd (sign e input m lg) =
           (if m = JString ''headers''
            then map_sum id delete_host (SignatureV4_sign e (signer input) (request u input))
            else SignatureV4_presign e (signer input) (request u input))"
  using assms by (auto simp add: sign_def Let_def split: sum.splits)

lemma sign_calls:
  assumes "URL e (url_string input) = Inr u"
    and "method' input = GET \<or> truthy (body input)"
  shows "signer_calls (fst (sign e input m lg)) = [(signer input, request u input)]"
  using assms
  by (auto simp add: sign_def Let_def signer_calls_append signer_calls_debug split: sum.splits)

lemma sign_trace:
  assumes "URL e (url_string input) = Inr u"
    and "method' input = GET \<or> truthy (body input)"
  shows "filter (\<lambda>ev. is_sign ev \<or> is_presign ev) (fst (sign e input m lg)) =
           [if m = JString ''headers'' then Sign (signer input) (request u input)
            else Presign (signer input) (request u input)]"
  using assms by (auto simp add: sign_def Let_def debug_def split: sum.splits)

text \<open>The fields of the request handed to the signer.\<close>

lemma request_body:
  "req_body (request u input) = (if method' input = GET then JUndefined else body input)"
  by (simp add: request_def Let_def HttpRequest_new_def split: option.splits)

lemma request_headers:
  "req_headers (request u input) = (spread (headers input))(''host'' \<mapsto> url_hostname u)"
  by (simp add: request_def Let_def HttpRequest_new_def split: option.splits)

lemma request_path:
  "req_path (request u input) =
     (if url_pathname u = [] then ''/''
      else if hd (url_pathname u) = CHR ''/'' then url_pathname u
      else CHR ''/'' # url_pathname u)"
  by (simp add: request_def Let_def HttpRequest_new_def split: option.splits)

lemma url_string_example:
  "url_string (example_input\<lparr>method' := mt, body := b\<rparr>) = ''https://example-api.com/users''"
  by (simp add: url_string_def example_input_def or_empty_def)

lemma sample_URL_users:
  "URL sample_env ''https://example-api.com/users'' =
     Inr \<lparr>url_hostname = ''example-api.com'', url_pathname = ''/users''\<rparr>"
  by (simp add: sample_env_def sample_URL_def is_host_char_def is_path_char_def)

section \<open>The claims\<close>

subsection \<open>C1: the body of a POST or PUT\<close>

text \<open>
  Claim C1, as the code has it. For every input whose method is POST or PUT and whose
  URL parses: when the body is absent or otherwise falsy (\<^verbatim>\<open>null\<close>, \<^verbatim>\<open>false\<close>, \<^verbatim>\<open>0\<close>,
  \<^verbatim>\<open>NaN\<close>, the empty string), \<open>sign\<close> throws
  \<^verbatim>\<open>BadRequestException('Request body is missing')\<close> and no signer call has been made; when
  the body is truthy, \<open>sign\<close> throws no error of its own, its outcome is the signer's,
  and the body is attached to the request the signer receives.
\<close>

theorem sign_body_validation:
  assumes "method' input = POST \<or> method' input = PUT"
    and "URL e (url_string input) = Inr u"
  shows "(\<not> truthy (body input) \<longrightarrow>
            snd (sign e input m lg) = Inl (BadRequestException ''Request body is missing'')
            \<and> signer_calls (fst (sign e input m lg)) = [])
       \<and> (truthy (body input) \<longrightarrow>
            signer_calls (fst (sign e input m lg)) = [(signer input, request u input)]
            \<and> req_body (request u input) = body input
            \<and> snd (sign e input m lg) =
                (if m = JString ''headers''
                 then map_sum id delete_host (SignatureV4_sign e (signer input) (request u input))
                 else SignatureV4_presign e (signer input) (request u input)))"
proof (intro conjI impI)
  from assms(1) have ng: "method' input \<noteq> GET" by auto
  {
    assume "\<not> truthy (body input)"
    with assms(2) ng
    show "snd (sign e input m lg) = Inl (BadRequestException ''Request body is missing'')"
      and "signer_calls (fst (sign e input m lg)) = []"
      by (rule sign_missing_body)+
  }
  {
    assume t: "truthy (body input)"
    then have ok: "method' input = GET \<or> truthy (body input)" ..
    from assms(2) ok
    show "signer_calls (fst (sign e input m lg)) = [(signer input, request u input)]"
      by (rule sign_calls)
    from ng show "req_body (request u input) = body input"
      by (simp add: request_body)
    from assms(2) ok
    show "snd (sign e input m lg) =
            (if m = JString ''headers''
             then map_sum id delete_host (SignatureV4_sign e (signer input) (request u input))
             else SignatureV4_presign e (signer input) (request u input))"
      by (rule sign_outcome)
  }
qed

text \<open>A PUT without a body is refused unsigned; a POST with the body \<^verbatim>\<open>'{}'\<close> carries it.\<close>

theorem sign_body_validation_witness:
  "snd (sign sample_env (example_input\<lparr>method' := PUT, body := JUndefined\<rparr>) JUndefined False)
     = Inl (BadRequestException ''Request body is missing'')
   \<and> signer_calls (fst (sign sample_env (example_input\<lparr>method' := PUT, body := JUndefined\<rparr>) JUndefined False)) = []
   \<and> map (req_body \<circ> snd)
        (signer_calls (fst (sign sample_env
           (example_input\<lparr>method' := POST, body := JString ''{}''\<rparr>) JUndefined False)))
       = [JString ''{}'']"
  using sign_body_validation [of "example_input\<lparr>method' := PUT, body := JUndefined\<rparr>" sample_env
      "\<lparr>url_hostname = ''example-api.com'', url_pathname = ''/users''\<rparr>" JUndefined False]
    sign_body_validation [of "example_input\<lparr>method' := POST, body := JString ''{}''\<rparr>" sample_env
      "\<lparr>url_hostname = ''example-api.com'', url_pathname = ''/users''\<rparr>" JUndefined False]
  by (simp add: url_string_example sample_URL_users)

text \<open>
  The claim as stated fails twice. A POST whose body is present but is the empty string is
  refused as missing; and a PUT without a body to the host \<^verbatim>\<open>a b\<close> ends in the URL
  parser's \<^verbatim>\<open>TypeError\<close>, thrown before the body is looked at.
\<close>

theorem sign_body_present_counterexample:
  "body (example_input\<lparr>method' := POST, body := JString ''''\<rparr>) \<noteq> JUndefined
   \<and> snd (sign sample_env (example_input\<lparr>method' := POST, body := JString ''''\<rparr>) JUndefined False)
       = Inl (BadRequestException ''Request body is missing'')
   \<and> body (example_input\<lparr>hostname := ''a b'', method' := PUT\<rparr>) = JUndefined
   \<and> snd (sign sample_env (example_input\<lparr>hostname := ''a b'', method' := PUT\<rparr>) JUndefined False)
       = Inl \<lparr>name = ''TypeError'', message = ''Invalid URL''\<rparr>
   \<and> snd (sign sample_env (example_input\<lparr>hostname := ''a b'', method' := PUT\<rparr>) JUndefined False)
       \<noteq> Inl (BadRequestException ''Request body is missing'')"
  by (simp add: sign_defs sample_defs)

subsection \<open>C2: service, region and credentials are not validated\<close>

text \<open>
  Claim C2, as the code has it. \<open>sign\<close> validates neither the service, the region nor the
  credentials. Whenever the URL parses and the body check passes (the method is GET or
  the body is truthy), the signer is called exactly once, with the provider chosen from
  the role ARN and with the service and the region of the input unchanged, an empty
  region included; and the outcome of \<open>sign\<close> is the outcome of that call: the signed
  request, or the signer's own error (such as a failed credential resolution).
\<close>

theorem sign_no_region_validation:
  assumes "URL e (url_string input) = Inr u"
    and "method' input = GET \<or> truthy (body input)"
  shows "signer_calls (fst (sign e input m lg)) =
           [(\<lparr>signer_credentials = credentialsToUse input, signer_service = service input,
              signer_region = region input\<rparr>, request u input)]
       \<and> snd (sign e input m lg) =
           (if m = JString ''headers''
            then map_sum id delete_host (SignatureV4_sign e (signer input) (request u input))
            else SignatureV4_presign e (signer input) (request u input))"
  using sign_calls [OF assms, of m lg] sign_outcome [OF assms, of m lg]
  by (simp add: signer_def)

text \<open>The example input with an empty region: the signer is given the empty region.\<close>

theorem sign_no_region_validation_witness:
  "map (signer_region \<circ> fst)
     (signer_calls (fst (sign sample_env (example_input\<lparr>region := ''''\<rparr>) JUndefined False))) = ['''']
   \<and> map (signer_service \<circ> fst)
     (signer_calls (fst (sign sample_env (example_input\<lparr>region := ''''\<rparr>) JUndefined False)))
       = [execute_api]"
  using sign_no_region_validation [of sample_env "example_input\<lparr>region := ''''\<rparr>"
      "\<lparr>url_hostname = ''example-api.com'', url_pathname = ''/users''\<rparr>" JUndefined False]
  by (simp add: url_string_def or_empty_def sample_defs)

text \<open>
  The claim as stated fails: with an empty region \<open>sign\<close> goes on to the signer and
  returns what the signer returns, here a signed request.
\<close>

theorem sign_empty_region_counterexample:
  "region (example_input\<lparr>region := ''''\<rparr>) = ''''
   \<and> map (signer_region \<circ> fst)
       (signer_calls (fst (sign sample_env (example_input\<lparr>region := ''''\<rparr>) JUndefined False))) = ['''']
   \<and> \<not> isl (snd (sign sample_env (example_input\<lparr>region := ''''\<rparr>) JUndefined False))"
  by (simp add: sign_defs sample_defs)

subsection \<open>C3: the host header of the result\<close>

text \<open>
  Claim C3. Whenever \<open>sign\<close> returns a request: with \<^verbatim>\<open>addSignatureTo = 'headers'\<close> the
  result has no \<^verbatim>\<open>host\<close> header and is otherwise the request that the signer's
  \<^verbatim>\<open>sign\<close> produced, every other header included; in the other mode the result is the
  request that \<^verbatim>\<open>presign\<close> produced, with nothing removed.
\<close>

theorem sign_headers_deletes_host:
  assumes "snd (sign e input m lg) = Inr r"
    and "URL e (url_string input) = Inr u"
  shows "(m = JString ''headers'' \<longrightarrow>
            req_headers r ''host'' = None
            \<and> (\<exists>sr. SignatureV4_sign e (signer input) (request u input) = Inr sr
                    \<and> r = sr\<lparr>req_headers := req_headers r\<rparr>
                    \<and> (\<forall>k. k \<noteq> ''host'' \<longrightarrow> req_headers r k = req_headers sr k)))
       \<and> (m \<noteq> JString ''headers'' \<longrightarrow>
            SignatureV4_presign e (signer input) (request u input) = Inr r)"
proof -
  have ok: "method' input = GET \<or> truthy (body input)"
  proof (rule ccontr)
    assume "\<not> (method' input = GET \<or> truthy (body input))"
    then have "method' input \<noteq> GET" and "\<not> truthy (body input)" by simp_all
    from sign_missing_body(1) [OF assms(2) this, of m lg] assms(1) show False by simp
  qed
  note out = sign_outcome [OF assms(2) ok, of m lg]
  show ?thesis
  proof (cases "m = JString ''headers''")
    case True
    with out assms(1)
    have "map_sum id delete_host (SignatureV4_sign e (signer input) (request u input)) = Inr r"
      by simp
    then obtain sr where sr: "SignatureV4_sign e (signer input) (request u input) = Inr sr"
      and r: "r = delete_host sr"
      by (cases "SignatureV4_sign e (signer input) (request u input)") auto
    from r have "req_headers r ''host'' = None"
      and "r = sr\<lparr>req_headers := req_headers r\<rparr>"
      and "\<forall>k. k \<noteq> ''host'' \<longrightarrow> req_headers r k = req_headers sr k"
      by (simp_all add: delete_host_def)
    with sr True show ?thesis by blast
  next
    case False
    with out assms(1) show ?thesis by simp
  qed
qed

text \<open>
  The example input: signed in the headers, the result has the date header and no host
  header; presigned, it keeps the host header.
\<close>

theorem sign_headers_deletes_host_witness:
  "req_headers (projr (snd (sign sample_env example_input (JString ''headers'') False))) ''host'' = None
   \<and> req_headers (projr (snd (sign sample_env example_input (JString ''headers'') False)))
        ''x-amz-date'' = Some ''20150830T123600Z''
   \<and> req_headers (projr (snd (sign sample_env example_input (JString ''query'') False))) ''host''
        = Some ''example-api.com''"
proof -
  let ?u = "\<lparr>url_hostname = ''example-api.com'', url_pathname = ''/users''\<rparr>"
  let ?h = "sign sample_env example_input (JString ''headers'') False"
  let ?q = "sign sample_env example_input (JString ''query'') False"
  have u: "URL sample_env (url_string example_input) = Inr ?u"
    by (simp add: url_string_def or_empty_def sample_defs)
  have h: "snd ?h = Inr (projr (snd ?h))"
    by (simp add: sign_defs sample_defs)
  have q: "snd ?q = Inr (projr (snd ?q))"
    by (simp add: sign_defs sample_defs)
  from sign_headers_deletes_host [OF h u]
  have 1: "req_headers (projr (snd ?h)) ''host'' = None" by simp
  have 2: "req_headers (projr (snd ?h)) ''x-amz-date'' = Some ''20150830T123600Z''"
    by (simp add: sign_defs sample_defs)
  from sign_headers_deletes_host [OF q u]
  have "SignatureV4_presign sample_env (signer example_input) (request ?u example_input)
          = Inr (projr (snd ?q))" by simp
  then have 3: "req_headers (projr (snd ?q)) ''host'' = Some ''example-api.com''"
    by (simp add: sign_defs sample_defs)
  from 1 2 3 show ?thesis by simp
qed

subsection \<open>C4: the errors of sign\<close>

text \<open>
  Claim C4. An error that leaves \<open>sign\<close> is either the one \<open>sign\<close> throws itself, which is
  the \<^verbatim>\<open>BadRequestException\<close> named \<^verbatim>\<open>'BadRequestException'\<close> with the message
  \<^verbatim>\<open>'Request body is missing'\<close>, thrown for a method other than GET with a falsy body, or
  it is the error of the URL parser or of the signer call, passed on as it is. \<open>sign\<close>
  raises no other error of its own.
\<close>

theorem sign_error_kinds:
  assumes "snd (sign e input m lg) = Inl err"
  shows "(err = BadRequestException ''Request body is missing''
            \<and> name err = ''BadRequestException''
            \<and> method' input \<noteq> GET \<and> \<not> truthy (body input))
       \<or> URL e (url_string input) = Inl err
       \<or> (\<exists>u. URL e (url_string input) = Inr u
              \<and> (SignatureV4_sign e (signer input) (request u input) = Inl err
                  \<or> SignatureV4_presign e (signer input) (request u input) = Inl err))"
proof (cases "URL e (url_string input)")
  case (Inl x)
  from sign_URL_error [OF Inl, of m lg] assms show ?thesis by (simp add: Inl)
next
  case (Inr u)
  show ?thesis
  proof (cases "method' input = GET \<or> truthy (body input)")
    case False
    then have "method' input \<noteq> GET" and "\<not> truthy (body input)" by simp_all
    from sign_missing_body(1) [OF Inr this, of m lg] assms False
    show ?thesis by (simp add: BadRequestException_def)
  next
    case True
    from sign_outcome [OF Inr True, of m lg] assms
    have "SignatureV4_sign e (signer input) (request u input) = Inl err
          \<or> SignatureV4_presign e (signer input) (request u input) = Inl err"
      by (cases "SignatureV4_sign e (signer input) (request u input)")
         (auto split: if_splits)
    with Inr show ?thesis by blast
  qed
qed

text \<open>
  A PUT without a body, where the URL parses and the signer never fails: the error is
  the \<^verbatim>\<open>BadRequestException\<close>.
\<close>

theorem sign_error_kinds_witness:
  "snd (sign sample_env (example_input\<lparr>method' := PUT\<rparr>) JUndefined False)
     = Inl (BadRequestException ''Request body is missing'')
   \<and> name (projl (snd (sign sample_env (example_input\<lparr>method' := PUT\<rparr>) JUndefined False)))
       = ''BadRequestException''"
proof -
  let ?s = "snd (sign sample_env (example_input\<lparr>method' := PUT\<rparr>) JUndefined False)"
  have s: "?s = Inl (projl ?s)"
    by (simp add: sign_defs sample_defs)
  have u: "URL sample_env (url_string (example_input\<lparr>method' := PUT\<rparr>))
             = Inr \<lparr>url_hostname = ''example-api.com'', url_pathname = ''/users''\<rparr>"
    by (simp add: url_string_def or_empty_def sample_defs)
  have ns: "\<not> isl (SignatureV4_sign sample_env s r)" for s r
    by (simp add: SignatureV4_sign_def sample_defs split: credential_provider.splits)
  have np: "\<not> isl (SignatureV4_presign sample_env s r)" for s r
    by (simp add: SignatureV4_presign_def sample_defs split: credential_provider.splits)
  from ns np have no: "SignatureV4_sign sample_env s r \<noteq> Inl x"
    "SignatureV4_presign sample_env s r \<noteq> Inl x" for s r x
    by (metis sum.disc(1))+
  from sign_error_kinds [OF s] u no
  have "projl ?s = BadRequestException ''Request body is missing''
        \<and> name (projl ?s) = ''BadRequestException''"
    by (auto simp add: example_input_def)
  with s show ?thesis by simp
qed

subsection \<open>C5: the credential provider\<close>

text \<open>
  Claim C5, as the code has it. The provider is chosen by the truthiness of the role ARN:
  whenever \<open>sign\<close> reaches the signer, the signer has been given temporary credentials
  for the role with a session of 3600 seconds when the role ARN is a non-empty string,
  and the default provider chain when the role ARN is absent or the empty string.
\<close>

theorem sign_credential_source:
  assumes "URL e (url_string input) = Inr u"
    and "method' input = GET \<or> truthy (body input)"
  shows "map (signer_credentials \<circ> fst) (signer_calls (fst (sign e input m lg))) =
           [case roleArn input of
              None \<Rightarrow> defaultProvider
            | Some r \<Rightarrow> if r = [] then defaultProvider else fromTemporaryCredentials r 3600]"
  using sign_calls [OF assms, of m lg]
  by (simp add: signer_def credentialsToUse_def split: option.splits)

text \<open>The example input with its role, and without one.\<close>

theorem sign_credential_source_witness:
  "map (signer_credentials \<circ> fst) (signer_calls (fst (sign sample_env example_input JUndefined False)))
     = [fromTemporaryCredentials ''arn:aws:iam::1111111111:role/example'' 3600]
   \<and> map (signer_credentials \<circ> fst)
       (signer_calls (fst (sign sample_env (example_input\<lparr>roleArn := None\<rparr>) JUndefined False)))
     = [defaultProvider]"
  using sign_credential_source [of sample_env example_input
      "\<lparr>url_hostname = ''example-api.com'', url_pathname = ''/users''\<rparr>" JUndefined False]
    sign_credential_source [of sample_env "example_input\<lparr>roleArn := None\<rparr>"
      "\<lparr>url_hostname = ''example-api.com'', url_pathname = ''/users''\<rparr>" JUndefined False]
  by (simp add: url_string_def or_empty_def sample_defs)

text \<open>
  The claim as stated fails: a role ARN that is present but is the empty string selects
  the default provider chain.
\<close>

theorem sign_empty_roleArn_counterexample:
  "roleArn (example_input\<lparr>roleArn := Some ''''\<rparr>) = Some ''''
   \<and> map (signer_credentials \<circ> fst)
       (signer_calls (fst (sign sample_env (example_input\<lparr>roleArn := Some ''''\<rparr>) JUndefined False)))
     = [defaultProvider]"
  by (simp add: sign_defs sample_defs)

subsection \<open>C7: an absent or empty path\<close>

text \<open>
  Claim C7, as the code has it. For every input whose path is absent or the empty string,
  the string parsed is \<^verbatim>\<open>https://{hostname}\<close> alone, and the request handed to the signer
  has the pathname that the URL parser returns for it (with \<^verbatim>\<open>HttpRequest\<close> putting a
  \<^verbatim>\<open>/\<close> in front of a pathname without one and \<^verbatim>\<open>/\<close> for an empty one). That is
  \<^verbatim>\<open>/\<close> for a bare host name, and the path written in the hostname when there is one.
\<close>

theorem sign_path_absent:
  assumes "path input = None \<or> path input = Some ''''"
    and "URL e (''https://'' @ hostname input) = Inr u"
    and "method' input = GET \<or> truthy (body input)"
  shows "url_string input = ''https://'' @ hostname input
       \<and> map (req_path \<circ> snd) (signer_calls (fst (sign e input m lg))) =
           [if url_pathname u = [] then ''/''
            else if hd (url_pathname u) = CHR ''/'' then url_pathname u
            else CHR ''/'' # url_pathname u]"
proof -
  from assms(1) have s: "url_string input = ''https://'' @ hostname input"
    by (auto simp add: url_string_def or_empty_def)
  with assms(2) have "URL e (url_string input) = Inr u" by simp
  from sign_calls [OF this assms(3), of m lg] s show ?thesis
    by (simp add: request_path)
qed

text \<open>The example input without a path and with an empty path: the request has the path \<^verbatim>\<open>/\<close>.\<close>

theorem sign_path_absent_witness:
  "map (req_path \<circ> snd)
     (signer_calls (fst (sign sample_env (example_input\<lparr>path := None\<rparr>) JUndefined False))) = [''/'']
   \<and> map (req_path \<circ> snd)
     (signer_calls (fst (sign sample_env (example_input\<lparr>path := Some ''''\<rparr>) JUndefined False))) = [''/'']"
  using sign_path_absent [of "example_input\<lparr>path := None\<rparr>" sample_env
      "\<lparr>url_hostname = ''example-api.com'', url_pathname = ''/''\<rparr>" JUndefined False]
    sign_path_absent [of "example_input\<lparr>path := Some ''''\<rparr>" sample_env
      "\<lparr>url_hostname = ''example-api.com'', url_pathname = ''/''\<rparr>" JUndefined False]
  by (simp add: sample_defs)

text \<open>
  The claim as stated fails: without a path and with the hostname \<^verbatim>\<open>example.com/api\<close>,
  the URL parsed is \<^verbatim>\<open>https://example.com/api\<close> and the request has the path \<^verbatim>\<open>/api\<close>.
\<close>

theorem sign_path_absent_counterexample:
  "path (example_input\<lparr>hostname := ''example.com/api'', path := None\<rparr>) = None
   \<and> map (req_path \<circ> snd)
       (signer_calls (fst (sign sample_env
          (example_input\<lparr>hostname := ''example.com/api'', path := None\<rparr>) JUndefined False)))
     = [''/api'']
   \<and> ''/api'' \<noteq> ''/''"
  by (simp add: sign_defs sample_defs)

subsection \<open>C8: the body of a GET\<close>

text \<open>
  Claim C8. For every input with the method GET: when the URL does not parse, the URL
  parser's error is thrown; otherwise the signer is called once with a request that has
  no body, whatever body the input has, and the outcome of \<open>sign\<close> is the signer's, so
  the missing-body error is never thrown.
\<close>

theorem sign_GET_ignores_body:
  assumes "method' input = GET"
  shows "case URL e (url_string input) of
           Inl err \<Rightarrow> sign e input m lg = ([], Inl err)
         | Inr u \<Rightarrow>
             signer_calls (fst (sign e input m lg)) = [(signer input, request u input)]
             \<and> req_body (request u input) = JUndefined
             \<and> snd (sign e input m lg) =
                 (if m = JString ''headers''
                  then map_sum id delete_host (SignatureV4_sign e (signer input) (request u input))
                  else SignatureV4_presign e (signer input) (request u input))"
proof (cases "URL e (url_string input)")
  case (Inl err)
  from sign_URL_error [OF Inl, of m lg] show ?thesis by (simp add: Inl)
next
  case (Inr u)
  from assms have ok: "method' input = GET \<or> truthy (body input)" ..
  from sign_calls [OF Inr ok, of m lg] sign_outcome [OF Inr ok, of m lg] assms
  show ?thesis by (simp add: Inr request_body)
qed

text \<open>
  The example input, a GET, with the body \<^verbatim>\<open>'{}'\<close>: the request signed has no body; and
  without a body it is signed all the same.
\<close>

theorem sign_GET_ignores_body_witness:
  "truthy (body (example_input\<lparr>body := JString ''{}''\<rparr>))
   \<and> map (req_body \<circ> snd)
       (signer_calls (fst (sign sample_env (example_input\<lparr>body := JString ''{}''\<rparr>) JUndefined False)))
     = [JUndefined]
   \<and> \<not> isl (snd (sign sample_env example_input JUndefined False))"
proof -
  have u: "URL sample_env (url_string (example_input\<lparr>body := b\<rparr>))
             = Inr \<lparr>url_hostname = ''example-api.com'', url_pathname = ''/users''\<rparr>" for b
    by (simp add: url_string_def or_empty_def sample_defs)
  have g: "method' (example_input\<lparr>body := b\<rparr>) = GET" for b
    by (simp add: example_input_def)
  from sign_GET_ignores_body [OF g, of sample_env "JString ''{}''" JUndefined False]
  have 1: "map (req_body \<circ> snd)
       (signer_calls (fst (sign sample_env (example_input\<lparr>body := JString ''{}''\<rparr>) JUndefined False)))
     = [JUndefined]"
    by (simp add: u)
  have 2: "\<not> isl (snd (sign sample_env example_input JUndefined False))"
    by (simp add: sign_defs sample_defs)
  from 1 2 show ?thesis by simp
qed

subsection \<open>C9: the host header of the request to sign\<close>

text \<open>
  Claim C9. Whenever \<open>sign\<close> reaches the signer, the request it hands over has as its
  \<^verbatim>\<open>host\<close> header the hostname parsed from \<^verbatim>\<open>https://{hostname}{path}\<close> (an absent path
  adding nothing), whatever \<^verbatim>\<open>host\<close> entry the input's headers have, and under every
  other key exactly what the input's headers have.
\<close>

theorem sign_host_header:
  assumes "URL e (''https://'' @ hostname input @ (case path input of None \<Rightarrow> [] | Some p \<Rightarrow> p))
             = Inr u"
    and "method' input = GET \<or> truthy (body input)"
  shows "signer_calls (fst (sign e input m lg)) = [(signer input, request u input)]
       \<and> req_headers (request u input) ''host'' = Some (url_hostname u)
       \<and> (\<forall>k. k \<noteq> ''host'' \<longrightarrow>
             req_headers (request u input) k =
               (case headers input of None \<Rightarrow> None | Some h \<Rightarrow> h k))"
proof -
  from assms(1) have "URL e (url_string input) = Inr u"
    by (simp add: url_string_path)
  from sign_calls [OF this assms(2), of m lg] show ?thesis
    by (simp add: request_headers spread_def split: option.splits)
qed

text \<open>
  The example input with headers of its own: the \<^verbatim>\<open>host\<close> entry is replaced by the
  parsed hostname, the \<^verbatim>\<open>accept\<close> entry is kept.
\<close>

theorem sign_host_header_witness:
  "map (\<lambda>c. req_headers (snd c) ''host'')
     (signer_calls (fst (sign sample_env
        (example_input\<lparr>headers := Some [''host'' \<mapsto> ''other.example'', ''accept'' \<mapsto> ''text/plain'']\<rparr>)
        JUndefined False))) = [Some ''example-api.com'']
   \<and> map (\<lambda>c. req_headers (snd c) ''accept'')
     (signer_calls (fst (sign sample_env
        (example_input\<lparr>headers := Some [''host'' \<mapsto> ''other.example'', ''accept'' \<mapsto> ''text/plain'']\<rparr>)
        JUndefined False))) = [Some ''text/plain'']"
  using sign_host_header [of sample_env
      "example_input\<lparr>headers := Some [''host'' \<mapsto> ''other.example'', ''accept'' \<mapsto> ''text/plain'']\<rparr>"
      "\<lparr>url_hostname = ''example-api.com'', url_pathname = ''/users''\<rparr>" JUndefined False]
  by (simp add: sample_defs)

subsection \<open>C10: the mode\<close>

text \<open>
  Claim C10. Whenever \<open>sign\<close> reaches the signer, it makes one signer call. Exactly when
  \<^verbatim>\<open>addSignatureTo\<close> is the string \<^verbatim>\<open>'headers'\<close>, the call is \<^verbatim>\<open>sign\<close> and its result is
  returned with the \<^verbatim>\<open>host\<close> header removed, so that a request returned in this mode has
  no \<^verbatim>\<open>host\<close> header. When \<^verbatim>\<open>addSignatureTo\<close> is omitted or is any other value, the call
  is \<^verbatim>\<open>presign\<close> and its result is returned as it is.
\<close>

theorem sign_mode_dispatch:
  assumes "URL e (url_string input) = Inr u"
    and "method' input = GET \<or> truthy (body input)"
  shows "(m = JString ''headers'' \<longrightarrow>
            filter (\<lambda>ev. is_sign ev \<or> is_presign ev) (fst (sign e input m lg))
              = [Sign (signer input) (request u input)]
            \<and> snd (sign e input m lg)
              = map_sum id (\<lambda>sr. sr\<lparr>req_headers := (req_headers sr)(''host'' := None)\<rparr>)
                  (SignatureV4_sign e (signer input) (request u input))
            \<and> (\<forall>r. snd (sign e input m lg) = Inr r \<longrightarrow> req_headers r ''host'' = None))
       \<and> (m \<noteq> JString ''headers'' \<longrightarrow>
            filter (\<lambda>ev. is_sign ev \<or> is_presign ev) (fst (sign e input m lg))
              = [Presign (signer input) (request u input)]
            \<and> snd (sign e input m lg)
              = SignatureV4_presign e (signer input) (request u input))"
proof (cases "m = JString ''headers''")
  case True
  let ?del = "\<lambda>sr. sr\<lparr>req_headers := (req_headers sr)(''host'' := None)\<rparr>"
  let ?out = "SignatureV4_sign e (signer input) (request u input)"
  have d: "delete_host = ?del"
    by (rule ext) (simp add: delete_host_def)
  from sign_outcome [OF assms, of m lg] True d
  have out: "snd (sign e input m lg) = map_sum id ?del ?out" by simp
  have "req_headers r ''host'' = None" if "snd (sign e input m lg) = Inr r" for r
    using that out by (cases ?out) auto
  with sign_trace [OF assms, of m lg] out True show ?thesis by simp
next
  case False
  with sign_trace [OF assms, of m lg] sign_outcome [OF assms, of m lg] show ?thesis by simp
qed

text \<open>
  The example input with a logger: omitted, \<^verbatim>\<open>'query'\<close> and \<^verbatim>\<open>'Headers'\<close> all presign, and
  the presigned request keeps its host header; \<^verbatim>\<open>'headers'\<close> signs, and the signed request
  has none.
\<close>

theorem sign_mode_dispatch_witness:
  "map is_presign (filter (\<lambda>ev. is_sign ev \<or> is_presign ev)
      (fst (sign sample_env example_input JUndefined True))) = [True]
   \<and> map is_presign (filter (\<lambda>ev. is_sign ev \<or> is_presign ev)
      (fst (sign sample_env example_input (JString ''query'') True))) = [True]
   \<and> map is_presign (filter (\<lambda>ev. is_sign ev \<or> is_presign ev)
      (fst (sign sample_env example_input (JString ''Headers'') True))) = [True]
   \<and> map is_sign (filter (\<lambda>ev. is_sign ev \<or> is_presign ev)
      (fst (sign sample_env example_input (JString ''headers'') True))) = [True]
   \<and> map_sum id (\<lambda>r. req_headers r ''host'')
        (snd (sign sample_env example_input (JString ''headers'') True)) = Inr None
   \<and> map_sum id (\<lambda>r. req_headers r ''host'')
        (snd (sign sample_env example_input JUndefined True)) = Inr (Some ''example-api.com'')"
proof -
  let ?u = "\<lparr>url_hostname = ''example-api.com'', url_pathname = ''/users''\<rparr>"
  have u: "URL sample_env (url_string example_input) = Inr ?u"
    by (simp add: url_string_def or_empty_def sample_defs)
  have g: "method' example_input = GET \<or> truthy (body example_input)"
    by (simp add: example_input_def)
  note d = sign_mode_dispatch [OF u g]
  have s: "SignatureV4_sign sample_env (signer example_input) (request ?u example_input)
             = Inr (projr (SignatureV4_sign sample_env (signer example_input)
                     (request ?u example_input)))"
    by (simp add: SignatureV4_sign_def signer_def credentialsToUse_def sample_defs)
  have p: "map_sum id (\<lambda>r. req_headers r ''host'')
             (SignatureV4_presign sample_env (signer example_input) (request ?u example_input))
           = Inr (Some ''example-api.com'')"
    by (simp add: SignatureV4_presign_def signer_def credentialsToUse_def request_def
        HttpRequest_new_def spread_def Let_def sample_defs)
  from d [of JUndefined True]
  have 1: "map is_presign (filter (\<lambda>ev. is_sign ev \<or> is_presign ev)
      (fst (sign sample_env example_input JUndefined True))) = [True]"
    and 6: "map_sum id (\<lambda>r. req_headers r ''host'')
        (snd (sign sample_env example_input JUndefined True)) = Inr (Some ''example-api.com'')"
    by (simp_all add: p)
  from d [of "JString ''query''" True]
  have 2: "map is_presign (filter (\<lambda>ev. is_sign ev \<or> is_presign ev)
      (fst (sign sample_env example_input (JString ''query'') True))) = [True]"
    by simp
  from d [of "JString ''Headers''" True]
  have 3: "map is_presign (filter (\<lambda>ev. is_sign ev \<or> is_presign ev)
      (fst (sign sample_env example_input (JString ''Headers'') True))) = [True]"
    by simp
  from d [of "JString ''headers''" True]
  have 4: "map is_sign (filter (\<lambda>ev. is_sign ev \<or> is_presign ev)
      (fst (sign sample_env example_input (JString ''headers'') True))) = [True]"
    and o: "snd (sign sample_env example_input (JString ''headers'') True)
      = map_sum id (\<lambda>sr. sr\<lparr>req_headers := (req_headers sr)(''host'' := None)\<rparr>)
          (SignatureV4_sign sample_env (signer example_input) (request ?u example_input))"
    by simp_all
  from s obtain x where x: "SignatureV4_sign sample_env (signer example_input)
      (request ?u example_input) = Inr x" ..
  have 5: "map_sum id (\<lambda>r. req_headers r ''host'')
        (snd (sign sample_env example_input (JString ''headers'') True)) = Inr None"
    by (simp add: o x)
  from 1 2 3 4 5 6 show ?thesis by simp
qed

end
